theory Spec2Isabelle
  imports Complex_Main "HOL-Library.Sublist"
begin

section \<open>Python strings\<close>

text \<open>
  A Python \<^verbatim>\<open>str\<close> is modelled by the bytes of its UTF-8 encoding, a \<^typ>\<open>string\<close>:
  an ASCII character is one byte below 128, any other code point is a sequence of bytes
  from 128 on. A string occurs in another one exactly when its encoding occurs in the
  other's encoding.
\<close>

definition lower_char :: "char \<Rightarrow> char" where
  "lower_char c =
     (case map_of (zip ''ABCDEFGHIJKLMNOPQRSTUVWXYZ'' ''abcdefghijklmnopqrstuvwxyz'') c of
        None \<Rightarrow> c
      | Some d \<Rightarrow> d)"

definition upper_char :: "char \<Rightarrow> char" where
  "upper_char c =
     (case map_of (zip ''abcdefghijklmnopqrstuvwxyz'' ''ABCDEFGHIJKLMNOPQRSTUVWXYZ'') c of
        None \<Rightarrow> c
      | Some d \<Rightarrow> d)"

text \<open>
  \<^verbatim>\<open>str.lower\<close>. Besides the ASCII capitals, two code points have an ASCII letter in
  their lower case: U+212A KELVIN SIGN (bytes E2 84 AA) becomes \<^verbatim>\<open>k\<close>, and U+0130
  LATIN CAPITAL LETTER I WITH DOT ABOVE (bytes C4 B0) becomes \<^verbatim>\<open>i\<close> followed by U+0307
  (bytes CC 87). Every other code point outside ASCII has a lower case outside ASCII; the
  model leaves its bytes as they are, which no search for an ASCII string in the result
  can tell apart. The service lowers a string only to search it for ASCII strings.
\<close>

fun lower :: "string \<Rightarrow> string" where
  "lower [] = []"
| "lower (c # s) =
     (if c = CHR 0xE2 \<and> prefix [CHR 0x84, CHR 0xAA] s then CHR ''k'' # lower (drop 2 s)
      else if c = CHR 0xC4 \<and> prefix [CHR 0xB0] s
      then CHR ''i'' # CHR 0xCC # CHR 0x87 # lower (drop 1 s)
      else lower_char c # lower s)"

text \<open>
  \<^verbatim>\<open>str.upper\<close> on the ASCII letters; the service applies it to the four container
  extensions it accepts only.
\<close>

definition upper :: "string \<Rightarrow> string" where
  "upper s = map upper_char s"

text \<open>\<^verbatim>\<open>x in s\<close> on two strings: \<open>x\<close> occurs in \<open>s\<close> as a contiguous substring.\<close>

fun str_in :: "string \<Rightarrow> string \<Rightarrow> bool" where
  "str_in x [] = (x = [])"
| "str_in x (c # s) = (prefix x (c # s) \<or> str_in x s)"

text \<open>\<^verbatim>\<open>any(x in s for x in xs)\<close>.\<close>

definition any_in :: "string list \<Rightarrow> string \<Rightarrow> bool" where
  "any_in xs s = list_ex (\<lambda>x. str_in x s) xs"

text \<open>\<^verbatim>\<open>str(n)\<close> and \<^verbatim>\<open>f"{n}"\<close> for an integer: its decimal numeral.\<close>

fun str_nat :: "nat \<Rightarrow> string" where
  "str_nat n =
     (if n < 10 then [''0123456789'' ! n]
      else str_nat (n div 10) @ [''0123456789'' ! (n mod 10)])"

declare str_nat.simps [simp del]

definition str_int :: "int \<Rightarrow> string" where
  "str_int i = (if i < 0 then CHR ''-'' # str_nat (nat (- i)) else str_nat (nat i))"

section \<open>URL classifier\<close>

text \<open>\<^verbatim>\<open>VideoService.validate_facebook_url\<close> (video.py, lines 17-27).\<close>

definition facebook_patterns :: "string list" where
  "facebook_patterns = [''facebook.com'', ''fb.com'', ''fb.watch'', ''m.facebook.com'']"

definition validate_facebook_url :: "string \<Rightarrow> bool" where
  "validate_facebook_url url = list_ex (\<lambda>pattern. str_in pattern (lower url)) facebook_patterns"

section \<open>Format normalisation\<close>

text \<open>
  One entry of \<^verbatim>\<open>info['formats']\<close>, restricted to the keys the service reads. Each key
  is either absent (\<open>None\<close>) or holds a value of the type the downloader documents for it:
  a string for \<^verbatim>\<open>protocol\<close>, \<^verbatim>\<open>format_note\<close>, \<^verbatim>\<open>ext\<close>, \<^verbatim>\<open>vcodec\<close>,
  \<^verbatim>\<open>resolution\<close> and \<^verbatim>\<open>format_id\<close>, an integer for \<^verbatim>\<open>height\<close>, \<^verbatim>\<open>width\<close>
  and \<^verbatim>\<open>filesize\<close>. A key that holds \<^verbatim>\<open>None\<close> is read like an absent key where
  the service reads it without a default or tests its truth (\<^verbatim>\<open>vcodec\<close>,
  \<^verbatim>\<open>height\<close>, \<^verbatim>\<open>width\<close>, \<^verbatim>\<open>resolution\<close>, \<^verbatim>\<open>filesize\<close>). A
  \<^verbatim>\<open>protocol\<close>, \<^verbatim>\<open>format_note\<close>, \<^verbatim>\<open>ext\<close> or \<^verbatim>\<open>format_id\<close> that holds
  \<^verbatim>\<open>None\<close> is not part of a descriptor: the entries of a document as the downloader
  returns it, where these occur, are the type \<open>raw_entry\<close> below. A key that holds a
  value of another type is outside this model.
\<close>

record raw_format =
  fmt_protocol :: "string option"
  fmt_format_note :: "string option"
  fmt_ext :: "string option"
  fmt_vcodec :: "string option"
  fmt_height :: "int option"
  fmt_width :: "int option"
  fmt_resolution :: "string option"
  fmt_format_id :: "string option"
  fmt_filesize :: "int option"

text \<open>
  Modelled from the spec: the schema class \<^verbatim>\<open>VideoFormat\<close> (app/schemas/video.py) is not
  among the sources. Its fields are those the constructor calls in video.py name, with
  the types of the data model: identifier, resolution, container extension and note are
  strings, the file size is an optional integer.
\<close>

record VideoFormat =
  format_id :: string
  resolution :: string
  ext :: string
  filesize :: "int option"
  format_note :: string

text \<open>\<^verbatim>\<open>d.get(k, default)\<close> on a key that holds a string when present.\<close>

definition get_default :: "'a option \<Rightarrow> 'a \<Rightarrow> 'a" where
  "get_default v d = (case v of None \<Rightarrow> d | Some x \<Rightarrow> x)"

text \<open>Truth value of \<^verbatim>\<open>fmt.get(k)\<close> for an integer and for a string key.\<close>

definition truthy_int :: "int option \<Rightarrow> bool" where
  "truthy_int v = (case v of None \<Rightarrow> False | Some i \<Rightarrow> i \<noteq> 0)"

definition truthy_str :: "string option \<Rightarrow> bool" where
  "truthy_str v = (case v of None \<Rightarrow> False | Some s \<Rightarrow> s \<noteq> [])"

text \<open>
  Lines 111-117: the resolution of one descriptor. \<^verbatim>\<open>a or b or 'unknown'\<close> yields the
  first operand that is true.
\<close>

definition compute_resolution :: "raw_format \<Rightarrow> string" where
  "compute_resolution fmt =
     (if truthy_int (fmt_height fmt) \<and> truthy_int (fmt_width fmt)
      then str_int (the (fmt_width fmt)) @ ''x'' @ str_int (the (fmt_height fmt))
      else if truthy_str (fmt_resolution fmt) then the (fmt_resolution fmt)
      else if truthy_str (fmt_format_note fmt) then the (fmt_format_note fmt)
      else ''unknown'')"

text \<open>
  The body of the loop of lines 94-136 for one descriptor: \<open>None\<close> is a \<^verbatim>\<open>continue\<close>,
  \<open>Some e\<close> is the entry appended to \<^verbatim>\<open>formats\<close>.
\<close>

definition format_entry :: "raw_format \<Rightarrow> VideoFormat option" where
  "format_entry fmt =
     (let protocol = get_default (fmt_protocol fmt) '''';
          note = lower (get_default (fmt_format_note fmt) '''');
          ext = get_default (fmt_ext fmt) ''mp4''
      in if any_in [''m3u8'', ''dash'', ''http_dash_segments''] protocol then None
         else if any_in [''dash'', ''hls'', ''fragment''] note then None
         else
           let vcodec = get_default (fmt_vcodec fmt) ''none''
           in if vcodec = ''none'' \<or> vcodec = [] then None
              else
                let resolution = compute_resolution fmt
                in if resolution = ''audio only'' then None
                   else if ext \<notin> set [''mp4'', ''mov'', ''avi'', ''mkv''] then None
                   else Some \<lparr>format_id = get_default (fmt_format_id fmt) ''best'',
                              resolution = resolution,
                              ext = ext,
                              filesize = fmt_filesize fmt,
                              format_note =
                                (if truthy_int (fmt_height fmt)
                                 then resolution @ '' - '' @ upper ext
                                 else ''Standard quality - '' @ upper ext)\<rparr>)"

fun filter_formats :: "raw_format list \<Rightarrow> VideoFormat list" where
  "filter_formats [] = []"
| "filter_formats (fmt # rest) =
     (case format_entry fmt of
        None \<Rightarrow> filter_formats rest
      | Some e \<Rightarrow> e # filter_formats rest)"

text \<open>Lines 138-145: the loop that removes duplicates, with the set \<^verbatim>\<open>seen\<close>.\<close>

fun unique_formats :: "string set \<Rightarrow> VideoFormat list \<Rightarrow> VideoFormat list" where
  "unique_formats seen [] = []"
| "unique_formats seen (fmt # rest) =
     (if resolution fmt \<notin> seen
      then fmt # unique_formats (insert (resolution fmt) seen) rest
      else unique_formats seen rest)"

definition best_format :: VideoFormat where
  "best_format = \<lparr>format_id = ''best'', resolution = ''best'', ext = ''mp4'',
                   filesize = None,
                   format_note = ''Best available quality - MP4 (recommended)''\<rparr>"

text \<open>
  Lines 92-155. The argument is \<^verbatim>\<open>info.get('formats')\<close>: \<open>None\<close> when the key is
  absent. The filter and the removal of duplicates run only when the list is non-empty;
  an empty result is replaced by the single default entry.
\<close>

definition normalize_formats :: "raw_format list option \<Rightarrow> VideoFormat list" where
  "normalize_formats raw =
     (let formats =
            (case raw of
               None \<Rightarrow> []
             | Some fs \<Rightarrow> if fs \<noteq> [] then unique_formats {} (filter_formats fs) else [])
      in if formats = [] then [best_format] else formats)"

section \<open>Paths and the filesystem\<close>

text \<open>
  A \<^verbatim>\<open>pathlib.Path\<close> is the list of its components below the filesystem root; all
  paths of the model are absolute. \<^verbatim>\<open>pathlib\<close> drops empty and \<^verbatim>\<open>.\<close> components
  when it parses a string and keeps \<^verbatim>\<open>..\<close> components as they are.
\<close>

type_synonym path = "string list"

fun split_slash :: "string \<Rightarrow> string list" where
  "split_slash [] = [[]]"
| "split_slash (c # s) =
     (if c = CHR ''/'' then [] # split_slash s
      else (case split_slash s of
              [] \<Rightarrow> [[c]]
            | w # ws \<Rightarrow> (c # w) # ws))"

definition pure_parts :: "string \<Rightarrow> path" where
  "pure_parts s = filter (\<lambda>c. c \<noteq> [] \<and> c \<noteq> ''.'') (split_slash s)"

text \<open>\<^verbatim>\<open>Path(s)\<close> and \<^verbatim>\<open>p / s\<close>: an absolute right operand replaces the left one.\<close>

definition Path :: "string \<Rightarrow> path" where
  "Path s = pure_parts s"

definition truediv :: "path \<Rightarrow> string \<Rightarrow> path" where
  "truediv p s = (if prefix ''/'' s then pure_parts s else p @ pure_parts s)"

definition str_path :: "path \<Rightarrow> string" where
  "str_path p = (if p = [] then ''/'' else concat (map (\<lambda>c. CHR ''/'' # c) p))"

text \<open>\<^verbatim>\<open>Path.parent\<close> and \<^verbatim>\<open>Path.parents\<close> are lexical: nothing is resolved.\<close>

definition parent :: "path \<Rightarrow> path" where
  "parent p = butlast p"

definition parents :: "path \<Rightarrow> path list" where
  "parents p = map (\<lambda>n. take n p) (rev [0..<length p])"

text \<open>
  The filesystem maps the location of every existing file and directory (a path without
  \<^verbatim>\<open>..\<close>) to its kind. The operating system resolves a path by walking its
  components from the root: each step needs a directory to step from, and \<^verbatim>\<open>..\<close>
  steps to the directory above. Symbolic links are not modelled.
\<close>

datatype node = File | Dir

type_synonym fs = "path \<Rightarrow> node option"

datatype os_error =
  FileNotFoundError | NotADirectoryError | FileExistsError | IsADirectoryError | DeviceBusy

fun walk :: "fs \<Rightarrow> path \<Rightarrow> path \<Rightarrow> os_error + path" where
  "walk t cur [] = Inr cur"
| "walk t cur (c # cs) =
     (case t cur of
        None \<Rightarrow> Inl FileNotFoundError
      | Some File \<Rightarrow> Inl NotADirectoryError
      | Some Dir \<Rightarrow> walk t (if c = ''..'' then butlast cur else cur @ [c]) cs)"

definition stat :: "fs \<Rightarrow> path \<Rightarrow> os_error + node" where
  "stat t p =
     (case walk t [] p of
        Inl e \<Rightarrow> Inl e
      | Inr q \<Rightarrow> (case t q of None \<Rightarrow> Inl FileNotFoundError | Some n \<Rightarrow> Inr n))"

text \<open>\<^verbatim>\<open>Path.exists\<close> and \<^verbatim>\<open>Path.is_dir\<close>.\<close>

definition exists :: "fs \<Rightarrow> path \<Rightarrow> bool" where
  "exists t p = (case stat t p of Inl e \<Rightarrow> False | Inr n \<Rightarrow> True)"

definition is_dir :: "fs \<Rightarrow> path \<Rightarrow> bool" where
  "is_dir t p = (stat t p = Inr Dir)"

definition os_mkdir :: "fs \<Rightarrow> path \<Rightarrow> os_error + fs" where
  "os_mkdir t p =
     (case walk t [] p of
        Inl e \<Rightarrow> Inl e
      | Inr q \<Rightarrow> (case t q of None \<Rightarrow> Inr (t(q \<mapsto> Dir)) | Some n \<Rightarrow> Inl FileExistsError))"

text \<open>
  \<^verbatim>\<open>Path.mkdir(exist_ok=True)\<close>: a missing parent is an error (there is no
  \<^verbatim>\<open>parents=True\<close>); any other error is ignored when the path is a directory.
\<close>

definition mkdir_exist_ok :: "fs \<Rightarrow> path \<Rightarrow> os_error + fs" where
  "mkdir_exist_ok t p =
     (case os_mkdir t p of
        Inr t' \<Rightarrow> Inr t'
      | Inl e \<Rightarrow> if e \<noteq> FileNotFoundError \<and> is_dir t p then Inr t else Inl e)"

text \<open>\<^verbatim>\<open>os.remove\<close>: removes a file, refuses a directory.\<close>

definition os_remove :: "fs \<Rightarrow> path \<Rightarrow> os_error + fs" where
  "os_remove t p =
     (case walk t [] p of
        Inl e \<Rightarrow> Inl e
      | Inr q \<Rightarrow>
          (case t q of
             None \<Rightarrow> Inl FileNotFoundError
           | Some Dir \<Rightarrow> Inl IsADirectoryError
           | Some File \<Rightarrow> Inr (t(q := None))))"

text \<open>
  \<^verbatim>\<open>shutil.rmtree\<close>: removes everything below the directory the path resolves to and
  then the directory itself, by \<^verbatim>\<open>os.rmdir\<close> of the path. The result is the filesystem
  left behind and the exception raised, if any. The final removal fails for the root
  directory, and for a path whose last component is \<^verbatim>\<open>..\<close>: the directory that
  component steps up from has just been removed, so the path no longer resolves. In both
  cases the content is gone and the directory stays.
\<close>

definition rmtree :: "fs \<Rightarrow> path \<Rightarrow> fs \<times> os_error option" where
  "rmtree t p =
     (case walk t [] p of
        Inl e \<Rightarrow> (t, Some e)
      | Inr q \<Rightarrow>
          (case t q of
             None \<Rightarrow> (t, Some FileNotFoundError)
           | Some File \<Rightarrow> (t, Some NotADirectoryError)
           | Some Dir \<Rightarrow>
               if q = [] then ((\<lambda>r. if r = [] then t r else None), Some DeviceBusy)
               else if p \<noteq> [] \<and> last p = ''..''
               then ((\<lambda>r. if strict_prefix q r then None else t r), Some FileNotFoundError)
               else ((\<lambda>r. if prefix q r then None else t r), None)))"

section \<open>Configuration and external capabilities\<close>

text \<open>
  \<^verbatim>\<open>app.core.config.settings\<close> is not among the sources; the service reads one field of
  it, the downloads root, which is a parameter of the model.
\<close>

record settings =
  DOWNLOAD_DIR :: path

text \<open>The options dictionary handed to \<^verbatim>\<open>yt_dlp.YoutubeDL\<close>.\<close>

record ydl_opts =
  format :: string
  outtmpl :: "string option"
  noplaylist :: bool
  quiet :: bool
  no_warnings :: bool
  skip_download :: "bool option"
  extractor_args :: "(string \<times> (string \<times> string list) list) list"
  http_headers :: "(string \<times> string) list"

text \<open>
  An entry of \<^verbatim>\<open>info['formats']\<close> as the downloader returns it: the descriptor of the
  values its keys hold, and the keys that are present with the value \<^verbatim>\<open>None\<close> (for
  these the descriptor holds no value). The service tells a key that holds \<^verbatim>\<open>None\<close>
  from an absent one for \<^verbatim>\<open>format_note\<close>, \<^verbatim>\<open>protocol\<close>, \<^verbatim>\<open>ext\<close> and
  \<^verbatim>\<open>format_id\<close>, which it reads with a default.
\<close>

record raw_entry =
  descriptor :: raw_format
  null_keys :: "string list"

text \<open>A key of a dictionary that is absent, holds \<^verbatim>\<open>None\<close>, or holds a value.\<close>

datatype 'a key = Absent | Null | Value 'a

text \<open>A Python number: a finite one is a rational number; a float may also be NaN or infinite.\<close>

datatype py_number = Number rat | NaN | Infinity | NegInfinity

text \<open>
  The metadata document \<^verbatim>\<open>extract_info\<close> returns, restricted to the keys the service
  reads. For \<^verbatim>\<open>formats\<close>, \<^verbatim>\<open>thumbnail\<close> and \<^verbatim>\<open>duration\<close> the service treats
  \<^verbatim>\<open>None\<close> like an absent key.
\<close>

record info =
  info_formats :: "raw_entry list option"
  info_thumbnail :: "string option"
  info_title :: "string key"
  info_duration :: "py_number option"

text \<open>
  An exception raised by the downloader library, with its message \<^verbatim>\<open>str(e)\<close>:
  \<^verbatim>\<open>yt_dlp.utils.DownloadError\<close> or any other exception.
\<close>

datatype exn = DownloadError string | OtherException string

fun str_exn :: "exn \<Rightarrow> string" where
  "str_exn (DownloadError m) = m"
| "str_exn (OtherException m) = m"

text \<open>
  The collaborators outside the service, over a state \<open>'w\<close> of the outside world that
  each call may change, so that two calls with the same arguments may differ:
  \<^item> \<open>uuid4\<close> is \<^verbatim>\<open>str(uuid.uuid4())\<close>;
  \<^item> \<open>probe opts url\<close> is \<^verbatim>\<open>YoutubeDL(opts).extract_info(url, download=False)\<close>: it
    raises, or returns the metadata document, or returns \<^verbatim>\<open>None\<close> when the extractor
    has found nothing;
  \<^item> \<open>fetch opts url\<close> is \<^verbatim>\<open>YoutubeDL(opts).extract_info(url, download=True)\<close> followed
    by \<^verbatim>\<open>prepare_filename\<close>: it yields the name of the file and may write to the
    filesystem.
\<close>

record 'w caps =
  uuid4 :: "'w \<Rightarrow> string \<times> 'w"
  probe :: "ydl_opts \<Rightarrow> string \<Rightarrow> 'w \<Rightarrow> (exn + info option) \<times> 'w"
  fetch :: "ydl_opts \<Rightarrow> string \<Rightarrow> fs \<Rightarrow> 'w \<Rightarrow> (exn + string) \<times> fs \<times> 'w"

text \<open>
  The state the service runs in: the filesystem, the outside world, and the calls made to
  the collaborators so far, oldest first.
\<close>

datatype event =
  Uuid4 string
| ExtractInfo ydl_opts string bool

record 'w state =
  files :: fs
  world :: 'w
  calls :: "event list"

text \<open>What the service raises.\<close>

datatype error = ValueError string | OSError os_error

section \<open>Extraction\<close>

text \<open>The three option dictionaries of lines 40-82, in their order.\<close>

definition strategies :: "ydl_opts list" where
  "strategies =
     [\<lparr>format = ''best'', outtmpl = None, noplaylist = True, quiet = True,
       no_warnings = True, skip_download = Some True, extractor_args = [],
       http_headers =
         [(''User-Agent'', ''Mozilla/5.0 (Windows NT 10.0; Win64; x64) AppleWebKit/537.36 (KHTML, like Gecko) Chrome/120.0.0.0 Safari/537.36''),
          (''Accept'', ''text/html,application/xhtml+xml,application/xml;q=0.9,*/*;q=0.8''),
          (''Accept-Language'', ''en-us,en;q=0.5''),
          (''Sec-Fetch-Mode'', ''navigate'')]\<rparr>,
      \<lparr>format = ''best'', outtmpl = None, noplaylist = True, quiet = True,
       no_warnings = True, skip_download = Some True,
       extractor_args = [(''facebook'', [(''skip'', [''dash''])])],
       http_headers =
         [(''User-Agent'', ''Mozilla/5.0 (Macintosh; Intel Mac OS X 10_15_7) AppleWebKit/537.36 (KHTML, like Gecko) Chrome/120.0.0.0 Safari/537.36'')]\<rparr>,
      \<lparr>format = ''best'', outtmpl = None, noplaylist = True, quiet = True,
       no_warnings = True, skip_download = Some True, extractor_args = [],
       http_headers =
         [(''User-Agent'', ''Mozilla/5.0 (iPhone; CPU iPhone OS 16_0 like Mac OS X) AppleWebKit/605.1.15 (KHTML, like Gecko) Version/16.0 Mobile/15E148 Safari/604.1'')]\<rparr>]"

text \<open>The dictionary \<^verbatim>\<open>extract_video_info\<close> returns.\<close>

record video_info =
  download_id :: string
  thumbnail_url :: "string option"
  title :: "string option"
  duration :: "int option"
  formats :: "VideoFormat list"

text \<open>The text of a Python exception that names a type or an attribute in quotes.\<close>

definition quoted :: "string \<Rightarrow> string" where
  "quoted s = [CHR 0x27] @ s @ [CHR 0x27]"

text \<open>
  Modelled from the spec: the constructor of the schema class \<^verbatim>\<open>VideoFormat\<close>
  (app/schemas/video.py, not among the sources) takes a string as identifier, so an
  identifier \<^verbatim>\<open>None\<close> is refused with a validation error; its text is not known.
\<close>

definition validation_error :: exn where
  "validation_error = OtherException ''1 validation error for VideoFormat''"

text \<open>
  The body of the loop of lines 94-136 for one entry as the downloader returns it.
  \<^verbatim>\<open>fmt.get('format_note', '').lower()\<close> in line 97 raises \<^verbatim>\<open>AttributeError\<close> when
  the key holds \<^verbatim>\<open>None\<close>, the search in \<^verbatim>\<open>protocol\<close> in line 101 raises
  \<^verbatim>\<open>TypeError\<close> when that key holds \<^verbatim>\<open>None\<close>. An extension \<^verbatim>\<open>None\<close> is not in
  the list of line 124, so the entry is skipped there if not before. An identifier
  \<^verbatim>\<open>None\<close> reaches the constructor only when the entry is kept. In every other case
  the entry is read as its descriptor.
\<close>

definition entry_result :: "raw_entry \<Rightarrow> exn + VideoFormat option" where
  "entry_result d =
     (if ''format_note'' \<in> set (null_keys d)
      then Inl (OtherException (quoted ''NoneType'' @ '' object has no attribute '' @ quoted ''lower''))
      else if ''protocol'' \<in> set (null_keys d)
      then Inl (OtherException (''argument of type '' @ quoted ''NoneType'' @ '' is not iterable''))
      else if ''ext'' \<in> set (null_keys d) then Inr None
      else
        case format_entry (descriptor d) of
          None \<Rightarrow> Inr None
        | Some e \<Rightarrow>
            if ''format_id'' \<in> set (null_keys d) then Inl validation_error else Inr (Some e))"

text \<open>The loop of lines 94-136: it ends with the first exception of its body.\<close>

fun filter_entries :: "raw_entry list \<Rightarrow> exn + VideoFormat list" where
  "filter_entries [] = Inr []"
| "filter_entries (d # rest) =
     (case entry_result d of
        Inl e \<Rightarrow> Inl e
      | Inr r \<Rightarrow>
          (case filter_entries rest of
             Inl e \<Rightarrow> Inl e
           | Inr es \<Rightarrow> Inr (case r of None \<Rightarrow> es | Some x \<Rightarrow> x # es)))"

text \<open>
  Lines 92-155 on the entries as the downloader returns them: the filter, the removal
  of duplicates and the default entry, or the exception of the filter.
\<close>

definition normalize_entries :: "raw_entry list option \<Rightarrow> exn + VideoFormat list" where
  "normalize_entries raw =
     (case raw of
        None \<Rightarrow> Inr [best_format]
      | Some ds \<Rightarrow>
          if ds \<noteq> []
          then (case filter_entries ds of
                  Inl e \<Rightarrow> Inl e
                | Inr fs \<Rightarrow>
                    Inr (let u = unique_formats {} fs in if u = [] then [best_format] else u))
          else Inr [best_format])"

text \<open>
  \<^verbatim>\<open>int(x)\<close> truncates a finite number towards zero and raises \<^verbatim>\<open>ValueError\<close> for
  NaN and \<^verbatim>\<open>OverflowError\<close> for an infinite float.
\<close>

definition int_of_float :: "py_number \<Rightarrow> exn + int" where
  "int_of_float x =
     (case x of
        Number r \<Rightarrow> Inr (if 0 \<le> r then \<lfloor>r\<rfloor> else \<lceil>r\<rceil>)
      | NaN \<Rightarrow> Inl (OtherException ''cannot convert float NaN to integer'')
      | Infinity \<Rightarrow> Inl (OtherException ''cannot convert float infinity to integer'')
      | NegInfinity \<Rightarrow> Inl (OtherException ''cannot convert float infinity to integer''))"

text \<open>
  Lines 92-169: the result built from what \<^verbatim>\<open>extract_info\<close> has returned, or the
  exception raised on the way: \<^verbatim>\<open>'formats' in info\<close> raises \<^verbatim>\<open>TypeError\<close> when
  \<^verbatim>\<open>info\<close> is \<^verbatim>\<open>None\<close>; then come the formats, then the duration.
  \<^verbatim>\<open>info.get('title', 'Facebook Video')\<close> yields the default for an absent key only.
\<close>

definition build_result :: "string \<Rightarrow> info option \<Rightarrow> exn + video_info" where
  "build_result did returned =
     (case returned of
        None \<Rightarrow>
          Inl (OtherException (''argument of type '' @ quoted ''NoneType'' @ '' is not iterable''))
      | Some doc \<Rightarrow>
          (case normalize_entries (info_formats doc) of
             Inl e \<Rightarrow> Inl e
           | Inr fs \<Rightarrow>
               (case (case info_duration doc of
                        None \<Rightarrow> Inr None
                      | Some x \<Rightarrow>
                          (case int_of_float x of Inl e \<Rightarrow> Inl e | Inr n \<Rightarrow> Inr (Some n))) of
                  Inl e \<Rightarrow> Inl e
                | Inr dur \<Rightarrow>
                    Inr \<lparr>download_id = did,
                         thumbnail_url = info_thumbnail doc,
                         title = (case info_title doc of
                                    Absent \<Rightarrow> Some ''Facebook Video''
                                  | Null \<Rightarrow> None
                                  | Value x \<Rightarrow> Some x),
                         duration = dur,
                         formats = fs\<rparr>)))"

text \<open>
  The loop of lines 85-173 over the option dictionaries still to try. Every iteration
  makes one call of \<open>probe\<close>. The \<^verbatim>\<open>try\<close> block holds the call and the construction of
  the result, and its handler catches every exception: the first iteration in which
  both go through ends the loop with the result; an exception of either is kept as
  \<^verbatim>\<open>last_error\<close> and the loop goes on. When the list is exhausted the loop ends with
  \<^verbatim>\<open>last_error\<close>.
\<close>

fun try_strategies ::
  "'w caps \<Rightarrow> string \<Rightarrow> string \<Rightarrow> ydl_opts list \<Rightarrow> exn option \<Rightarrow> 'w state \<Rightarrow>
     (exn option + video_info) \<times> 'w state" where
  "try_strategies c url did [] last_error s = (Inl last_error, s)"
| "try_strategies c url did (opts # rest) last_error s =
     (case probe c opts url (world s) of
        (Inr doc, w) \<Rightarrow>
          (case build_result did doc of
             Inr result \<Rightarrow>
               (Inr result, s\<lparr>world := w, calls := calls s @ [ExtractInfo opts url False]\<rparr>)
           | Inl e \<Rightarrow>
               try_strategies c url did rest (Some e)
                 (s\<lparr>world := w, calls := calls s @ [ExtractInfo opts url False]\<rparr>))
      | (Inl e, w) \<Rightarrow>
          try_strategies c url did rest (Some e)
            (s\<lparr>world := w, calls := calls s @ [ExtractInfo opts url False]\<rparr>))"

text \<open>\<^verbatim>\<open>str(last_error)\<close>; \<^verbatim>\<open>last_error\<close> is \<^verbatim>\<open>None\<close> until a strategy has failed.\<close>

definition str_last_error :: "exn option \<Rightarrow> string" where
  "str_last_error e = (case e of None \<Rightarrow> ''None'' | Some x \<Rightarrow> str_exn x)"

definition guidance_message :: string where
  "guidance_message =
     ''Unable to download this Facebook video. Facebook has updated their security measures. '' @
     ''Please try one of these solutions:'' @ [CHR 0x0A] @
     ''1. For Reels: Open the link in your browser, copy the full URL (facebook.com/reel/123456789)'' @ [CHR 0x0A] @
     ''2. For regular videos: Try using the direct video URL instead of share links'' @ [CHR 0x0A] @
     ''3. Some videos may be restricted and cannot be downloaded'' @ [CHR 0x0A] @
     ''Note: Facebook actively blocks automated downloads and this may not work for all videos.''"

definition private_message :: string where
  "private_message =
     ''This video appears to be private or requires login. Only public videos can be downloaded.''"

text \<open>Lines 183-196: the message of the error raised when every strategy has failed.\<close>

definition classify_error :: "string \<Rightarrow> string" where
  "classify_error error_str =
     (if str_in ''Cannot parse data'' error_str \<or> str_in ''unable to extract'' (lower error_str)
      then guidance_message
      else if str_in ''Private video'' error_str \<or> str_in ''login'' (lower error_str)
      then private_message
      else ''Could not process video: '' @ error_str)"

text \<open>
  \<^verbatim>\<open>VideoService.extract_video_info\<close> (lines 29-196). The directory is made outside
  the \<^verbatim>\<open>try\<close>, so an error of \<^verbatim>\<open>mkdir\<close> leaves the function as it is; so does an
  error of the final \<^verbatim>\<open>rmtree\<close>.
\<close>

definition extract_video_info ::
  "settings \<Rightarrow> 'w caps \<Rightarrow> string \<Rightarrow> 'w state \<Rightarrow> (error + video_info) \<times> 'w state" where
  "extract_video_info cfg c url s =
     (if \<not> validate_facebook_url url then (Inl (ValueError ''Not a valid Facebook URL''), s)
      else
        case uuid4 c (world s) of (did, w) \<Rightarrow>
        let s1 = s\<lparr>world := w, calls := calls s @ [Uuid4 did]\<rparr>;
            download_path = truediv (DOWNLOAD_DIR cfg) did
        in case mkdir_exist_ok (files s1) download_path of
             Inl e \<Rightarrow> (Inl (OSError e), s1)
           | Inr t \<Rightarrow>
               (case try_strategies c url did strategies None (s1\<lparr>files := t\<rparr>) of
                  (Inr result, s2) \<Rightarrow> (Inr result, s2)
                | (Inl last_error, s2) \<Rightarrow>
                    if exists (files s2) download_path
                    then (case rmtree (files s2) download_path of
                            (t', Some e) \<Rightarrow> (Inl (OSError e), s2\<lparr>files := t'\<rparr>)
                          | (t', None) \<Rightarrow>
                              (Inl (ValueError (classify_error (str_last_error last_error))),
                               s2\<lparr>files := t'\<rparr>))
                    else (Inl (ValueError (classify_error (str_last_error last_error))), s2)))"

section \<open>Download\<close>

text \<open>Lines 205-211: the format selector.\<close>

definition format_selector :: "string \<Rightarrow> string" where
  "format_selector fid =
     (if fid = ''best'' \<or> fid = [] then ''best'' else fid @ ''/best'')"

text \<open>Lines 213-223: the options of the download.\<close>

definition download_opts :: "path \<Rightarrow> string \<Rightarrow> ydl_opts" where
  "download_opts download_path fid =
     \<lparr>format = format_selector fid,
      outtmpl = Some (str_path (truediv download_path ''%(title)s.%(ext)s'')),
      noplaylist = True, quiet = False, no_warnings = False, skip_download = None,
      extractor_args = [],
      http_headers =
        [(''User-Agent'', ''Mozilla/5.0 (Windows NT 10.0; Win64; x64) AppleWebKit/537.36 (KHTML, like Gecko) Chrome/120.0.0.0 Safari/537.36'')]\<rparr>"

text \<open>One \<^verbatim>\<open>extract_info(url, download=True)\<close> with \<^verbatim>\<open>prepare_filename\<close>, recorded.\<close>

definition run_fetch ::
  "'w caps \<Rightarrow> ydl_opts \<Rightarrow> string \<Rightarrow> 'w state \<Rightarrow> (exn + string) \<times> 'w state" where
  "run_fetch c opts url s =
     (case fetch c opts url (files s) (world s) of
        (r, t, w) \<Rightarrow> (r, s\<lparr>files := t, world := w, calls := calls s @ [ExtractInfo opts url True]\<rparr>))"

text \<open>
  \<^verbatim>\<open>VideoService.download_video\<close> (lines 198-249). A \<^verbatim>\<open>DownloadError\<close> whose message
  names the format as unavailable is answered by one more call with the format
  \<^verbatim>\<open>best\<close>; the handlers raise \<^verbatim>\<open>ValueError\<close>.
\<close>

definition download_video ::
  "settings \<Rightarrow> 'w caps \<Rightarrow> string \<Rightarrow> string \<Rightarrow> string \<Rightarrow> 'w state \<Rightarrow> (error + path) \<times> 'w state" where
  "download_video cfg c url did fid s =
     (let download_path = truediv (DOWNLOAD_DIR cfg) did
      in case (if \<not> exists (files s) download_path
               then mkdir_exist_ok (files s) download_path else Inr (files s)) of
           Inl e \<Rightarrow> (Inl (OSError e), s)
         | Inr t \<Rightarrow>
             let opts = download_opts download_path fid
             in case run_fetch c opts url (s\<lparr>files := t\<rparr>) of
                  (Inr filename, s1) \<Rightarrow> (Inr (Path filename), s1)
                | (Inl (DownloadError error_msg), s1) \<Rightarrow>
                    if str_in ''Requested format is not available'' error_msg
                    then (case run_fetch c (opts\<lparr>format := ''best''\<rparr>) url s1 of
                            (Inr filename, s2) \<Rightarrow> (Inr (Path filename), s2)
                          | (Inl retry_error, s2) \<Rightarrow>
                              (Inl (ValueError (''Could not download video in any available format: ''
                                                @ str_exn retry_error)), s2))
                    else (Inl (ValueError (''Download failed: '' @ error_msg)), s1)
                | (Inl (OtherException m), s1) \<Rightarrow>
                    (Inl (ValueError (''Unexpected error during download: '' @ m)), s1))"

section \<open>Cleanup\<close>

text \<open>
  \<^verbatim>\<open>VideoService.cleanup_download\<close> (lines 251-263). The result is the filesystem left
  behind and the exception that was caught and logged, if any. An exception of
  \<^verbatim>\<open>os.remove\<close> ends the \<^verbatim>\<open>try\<close> block before the parent directory is looked at.
\<close>

definition cleanup_download :: "settings \<Rightarrow> path \<Rightarrow> fs \<Rightarrow> fs \<times> os_error option" where
  "cleanup_download cfg file_path t =
     (case (if exists t file_path then os_remove t file_path else Inr t) of
        Inl e \<Rightarrow> (t, Some e)
      | Inr t1 \<Rightarrow>
          let parent_dir = parent file_path
          in if exists t1 parent_dir \<and> DOWNLOAD_DIR cfg \<in> set (parents parent_dir)
             then rmtree t1 parent_dir
             else (t1, None))"

section \<open>Classes of raw formats\<close>



section \<open>Outcomes of the strategies\<close>

text \<open>
  What the strategies return when they are tried one after the other from the world
  \<open>w\<close>, each from the world the one before it has left: the entry at position \<open>i\<close> is
  the outcome of the strategy at position \<open>i\<close>.
\<close>

fun probe_outcomes ::
  "'w caps \<Rightarrow> string \<Rightarrow> ydl_opts list \<Rightarrow> 'w \<Rightarrow> (exn + info option) list" where
  "probe_outcomes c url [] w = []"
| "probe_outcomes c url (opts # rest) w =
     (case probe c opts url w of (r, w') \<Rightarrow> r # probe_outcomes c url rest w')"

text \<open>
  The outcome of a strategy is the outcome of its \<^verbatim>\<open>try\<close> block: the exception of the
  call, or else the result built from the document or the exception of building it.
\<close>

definition attempt_outcomes ::
  "'w caps \<Rightarrow> string \<Rightarrow> string \<Rightarrow> ydl_opts list \<Rightarrow> 'w \<Rightarrow> (exn + video_info) list" where
  "attempt_outcomes c url did sts w =
     map (\<lambda>r. case r of Inl e \<Rightarrow> Inl e | Inr doc \<Rightarrow> build_result did doc)
       (probe_outcomes c url sts w)"

section \<open>Session identifiers\<close>

text \<open>
  A string that \<^verbatim>\<open>pathlib\<close> reads as one ordinary path component, as the text of a
  UUID is: not empty, without a slash, and neither \<^verbatim>\<open>.\<close> nor \<^verbatim>\<open>..\<close>.
\<close>

definition plain_component :: "string \<Rightarrow> bool" where
  "plain_component s \<longleftrightarrow> s \<noteq> [] \<and> s \<noteq> ''.'' \<and> s \<noteq> ''..'' \<and> CHR ''/'' \<notin> set s"

section \<open>Example inputs\<close>

text \<open>Collaborators that are offline, and a state with an empty filesystem.\<close>

definition idle_caps :: "unit caps" where
  "idle_caps = \<lparr>uuid4 = (\<lambda>w. (''0'', w)),
                probe = (\<lambda>opts url w. (Inl (OtherException ''offline''), w)),
                fetch = (\<lambda>opts url t w. (Inl (OtherException ''offline''), t, w))\<rparr>"

definition empty_state :: "unit state" where
  "empty_state = \<lparr>files = Map.empty, world = (), calls = []\<rparr>"

text \<open>A URL whose host is written with U+212A KELVIN SIGN in place of the letter k.\<close>

definition kelvin_url :: string where
  "kelvin_url = ''https://www.faceboo'' @ [CHR 0xE2, CHR 0x84, CHR 0xAA] @ ''.com/reel/1''"

text \<open>Raw formats: a plain 720p file, the same as a playlist, and an audio track.\<close>

definition https_720 :: raw_format where
  "https_720 = \<lparr>fmt_protocol = Some ''https'', fmt_format_note = None, fmt_ext = Some ''mp4'',
     fmt_vcodec = Some ''h264'', fmt_height = Some 720, fmt_width = Some 1280,
     fmt_resolution = None, fmt_format_id = None, fmt_filesize = None\<rparr>"

definition m3u8_720 :: raw_format where
  "m3u8_720 = \<lparr>fmt_protocol = Some ''m3u8'', fmt_format_note = None, fmt_ext = Some ''mp4'',
     fmt_vcodec = Some ''h264'', fmt_height = Some 720, fmt_width = Some 1280,
     fmt_resolution = None, fmt_format_id = None, fmt_filesize = None\<rparr>"

definition m4a_audio :: raw_format where
  "m4a_audio = \<lparr>fmt_protocol = None, fmt_format_note = None, fmt_ext = Some ''m4a'',
     fmt_vcodec = Some ''none'', fmt_height = None, fmt_width = None,
     fmt_resolution = None, fmt_format_id = None, fmt_filesize = None\<rparr>"

text \<open>
  A filesystem with a system file outside the downloads root and one session directory
  holding a downloaded file under it.
\<close>

definition example_fs :: fs where
  "example_fs =
     [[] \<mapsto> Dir,
      [''etc''] \<mapsto> Dir,
      [''etc'', ''hosts''] \<mapsto> File,
      [''srv''] \<mapsto> Dir,
      [''srv'', ''downloads''] \<mapsto> Dir,
      [''srv'', ''downloads'', ''s1''] \<mapsto> Dir,
      [''srv'', ''downloads'', ''s1'', ''clip.mp4''] \<mapsto> File]"

definition example_cfg :: settings where
  "example_cfg = \<lparr>DOWNLOAD_DIR = [''srv'', ''downloads'']\<rparr>"

text \<open>
  A metadata document, and collaborators that count their calls in the world: the call
  number \<open>k\<close> (from 0) succeeds, every other call fails.
\<close>

definition example_doc :: info where
  "example_doc =
     \<lparr>info_formats = Some (map (\<lambda>f. \<lparr>descriptor = f, null_keys = []\<rparr>)
                              [https_720, m3u8_720, m4a_audio]),
      info_thumbnail = None, info_title = Value ''clip'',
      info_duration = Some (Number (7 / 2))\<rparr>"

text \<open>
  A document with an entry whose \<^verbatim>\<open>format_note\<close> holds \<^verbatim>\<open>None\<close>, and collaborators
  that return it on every call.
\<close>

definition null_note_doc :: info where
  "null_note_doc =
     \<lparr>info_formats = Some [\<lparr>descriptor = https_720, null_keys = [''format_note'']\<rparr>],
      info_thumbnail = None, info_title = Null, info_duration = None\<rparr>"

definition null_note_caps :: "unit caps" where
  "null_note_caps =
     \<lparr>uuid4 = (\<lambda>w. (''s2'', w)),
      probe = (\<lambda>opts url w. (Inr (Some null_note_doc), w)),
      fetch = (\<lambda>opts url t w. (Inl (OtherException ''offline''), t, w))\<rparr>"

definition example_unit_state :: "unit state" where
  "example_unit_state = \<lparr>files = example_fs, world = (), calls = []\<rparr>"

definition scripted_caps :: "nat \<Rightarrow> nat caps" where
  "scripted_caps k =
     \<lparr>uuid4 = (\<lambda>w. (''s2'', w)),
      probe = (\<lambda>opts url w.
        (if w = k then Inr (Some example_doc) else Inl (DownloadError ''Cannot parse data''),
         Suc w)),
      fetch = (\<lambda>opts url t w.
        (if w = k then Inr ''/srv/downloads/s1/clip.mp4''
         else Inl (DownloadError ''ERROR: Requested format is not available''), t, Suc w))\<rparr>"

definition example_state :: "nat state" where
  "example_state = \<lparr>files = example_fs, world = 0, calls = []\<rparr>"

section \<open>Properties of the string operations\<close>

lemma str_in_iff: "str_in x s \<longleftrightarrow> (\<exists>pre suf. s = pre @ x @ suf)"
proof (induction s)
  case Nil
  then show ?case by auto
next
  case (Cons c s)
  show ?case
  proof
    assume "str_in x (c # s)"
    then consider "prefix x (c # s)" | "str_in x s" by auto
    then show "\<exists>pre suf. c # s = pre @ x @ suf"
    proof cases
      case 1
      then obtain suf where "c # s = x @ suf" by (auto simp: prefix_def)
      then have "c # s = [] @ x @ suf" by simp
      then show ?thesis by blast
    next
      case 2
      with Cons.IH obtain pre suf where "s = pre @ x @ suf" by blast
      then have "c # s = (c # pre) @ x @ suf" by simp
      then show ?thesis by blast
    qed
  next
    assume "\<exists>pre suf. c # s = pre @ x @ suf"
    then obtain pre suf where eq: "c # s = pre @ x @ suf" by blast
    show "str_in x (c # s)"
    proof (cases pre)
      case Nil
      with eq have "prefix x (c # s)" by (simp add: prefix_def)
      then show ?thesis by simp
    next
      case (Cons d pre')
      with eq have "s = pre' @ x @ suf" by simp
      with Cons.IH have "str_in x s" by blast
      then show ?thesis by simp
    qed
  qed
qed

lemma str_in_map_iff:
  "str_in x (map f s) \<longleftrightarrow> (\<exists>pre mid suf. s = pre @ mid @ suf \<and> map f mid = x)"
proof
  assume "str_in x (map f s)"
  then obtain a b where "map f s = a @ x @ b"
    by (auto simp: str_in_iff)
  then obtain pre rest where s: "s = pre @ rest" and r: "x @ b = map f rest"
    unfolding map_eq_append_conv by blast
  from r obtain mid suf where "rest = mid @ suf" and "map f mid = x"
    unfolding append_eq_map_conv by blast
  with s show "\<exists>pre mid suf. s = pre @ mid @ suf \<and> map f mid = x"
    by auto
next
  assume "\<exists>pre mid suf. s = pre @ mid @ suf \<and> map f mid = x"
  then obtain pre mid suf where "s = pre @ mid @ suf" and "map f mid = x" by blast
  then have "map f s = map f pre @ x @ map f suf" by auto
  then show "str_in x (map f s)" unfolding str_in_iff by blast
qed

lemma lower_ascii: "\<forall>c\<in>set s. (of_char c :: nat) < 128 \<Longrightarrow> lower s = map lower_char s"
  by (induction s) auto

lemma validate_iff:
  "validate_facebook_url url \<longleftrightarrow>
     (\<exists>p\<in>set facebook_patterns. \<exists>pre suf. lower url = pre @ p @ suf)"
  by (simp only: validate_facebook_url_def list_ex_iff str_in_iff)

section \<open>Properties of the URL classifier\<close>

lemmas classifier_eval =
  validate_facebook_url_def facebook_patterns_def lower_char_def

text \<open>
  C6. The classifier accepts a URL exactly when one of the four domain patterns occurs
  in the lower case of the URL. For a URL of ASCII characters that is: some contiguous
  piece of the URL is, up to the case of its letters, one of the patterns. A URL whose
  lower case holds none of the patterns is rejected, and extraction of it raises the
  invalid-URL error without a call to any collaborator: the record of calls is
  unchanged.
\<close>

theorem validate_facebook_url_classifies:
  "(validate_facebook_url url \<longleftrightarrow>
      (\<exists>p\<in>set facebook_patterns. \<exists>pre suf. lower url = pre @ p @ suf)) \<and>
   ((\<forall>c\<in>set url. (of_char c :: nat) < 128) \<longrightarrow>
      (validate_facebook_url url \<longleftrightarrow>
         (\<exists>p\<in>set facebook_patterns. \<exists>pre mid suf.
            url = pre @ mid @ suf \<and> map lower_char mid = p))) \<and>
   (\<not> (\<exists>p\<in>set facebook_patterns. \<exists>pre suf. lower url = pre @ p @ suf) \<longrightarrow>
      \<not> validate_facebook_url url \<and>
      fst (extract_video_info cfg c url s) = Inl (ValueError ''Not a valid Facebook URL'') \<and>
      calls (snd (extract_video_info cfg c url s)) = calls s)"
proof (intro conjI impI)
  show "validate_facebook_url url \<longleftrightarrow>
      (\<exists>p\<in>set facebook_patterns. \<exists>pre suf. lower url = pre @ p @ suf)"
    by (rule validate_iff)
next
  assume "\<forall>c\<in>set url. (of_char c :: nat) < 128"
  then have "lower url = map lower_char url" by (rule lower_ascii)
  then show "validate_facebook_url url \<longleftrightarrow>
         (\<exists>p\<in>set facebook_patterns. \<exists>pre mid suf.
            url = pre @ mid @ suf \<and> map lower_char mid = p)"
    by (simp only: validate_facebook_url_def list_ex_iff str_in_map_iff)
next
  assume "\<not> (\<exists>p\<in>set facebook_patterns. \<exists>pre suf. lower url = pre @ p @ suf)"
  then show nv: "\<not> validate_facebook_url url"
    unfolding validate_iff by blast
  then show "fst (extract_video_info cfg c url s) = Inl (ValueError ''Not a valid Facebook URL'')"
    and "calls (snd (extract_video_info cfg c url s)) = calls s"
    by (simp_all add: extract_video_info_def)
qed

theorem validate_facebook_url_classifies_witness:
  "\<not> (\<exists>c\<in>set ''https://example.com/v/1''. \<not> (of_char c :: nat) < 128) \<and>
   \<not> (\<exists>p\<in>set facebook_patterns. \<exists>pre suf.
        lower ''https://example.com/v/1'' = pre @ p @ suf) \<and>
   \<not> (\<exists>p\<in>set facebook_patterns. \<exists>pre mid suf.
        ''https://example.com/v/1'' = pre @ mid @ suf \<and> map lower_char mid = p) \<and>
   \<not> validate_facebook_url ''https://example.com/v/1'' \<and>
   validate_facebook_url ''https://www.FaceBook.com/reel/123'' \<and>
   validate_facebook_url kelvin_url \<and>
   fst (extract_video_info \<lparr>DOWNLOAD_DIR = [''srv'']\<rparr> idle_caps ''https://example.com/v/1'' empty_state)
     = Inl (ValueError ''Not a valid Facebook URL'') \<and>
   calls (snd (extract_video_info \<lparr>DOWNLOAD_DIR = [''srv'']\<rparr> idle_caps ''https://example.com/v/1'' empty_state))
     = calls empty_state"
proof -
  have a: "\<forall>c\<in>set ''https://example.com/v/1''. (of_char c :: nat) < 128"
    by simp
  have nv: "\<not> validate_facebook_url ''https://example.com/v/1''"
    by (simp add: classifier_eval)
  have v: "validate_facebook_url ''https://www.FaceBook.com/reel/123''"
    by (simp add: classifier_eval)
  have k: "validate_facebook_url kelvin_url"
    by (simp add: classifier_eval kelvin_url_def)
  note c = validate_facebook_url_classifies
    [of "''https://example.com/v/1''" "\<lparr>DOWNLOAD_DIR = [''srv'']\<rparr>" idle_caps empty_state]
  from c nv have none: "\<not> (\<exists>p\<in>set facebook_patterns. \<exists>pre suf.
        lower ''https://example.com/v/1'' = pre @ p @ suf)"
    by blast
  from c a nv have none': "\<not> (\<exists>p\<in>set facebook_patterns. \<exists>pre mid suf.
        ''https://example.com/v/1'' = pre @ mid @ suf \<and> map lower_char mid = p)"
    by blast
  from a have a': "\<not> (\<exists>c\<in>set ''https://example.com/v/1''. \<not> (of_char c :: nat) < 128)"
    by blast
  from c none none' a' nv v k show ?thesis by blast
qed

section \<open>Properties of the format normalisation\<close>

lemma unique_formats_fresh:
  "v \<in> set (unique_formats seen xs) \<Longrightarrow> resolution v \<notin> seen"
  by (induction xs arbitrary: seen) (auto split: if_splits)

lemma unique_formats_distinct: "distinct (map resolution (unique_formats seen xs))"
  by (induction xs arbitrary: seen) (auto dest: unique_formats_fresh)

text \<open>
  C2. Whatever the list of raw formats is (also when the key is absent), the normalised
  list has no two entries with the same resolution and is not empty.
\<close>

theorem normalize_formats_distinct_nonempty:
  "distinct (map resolution (normalize_formats raw)) \<and> normalize_formats raw \<noteq> []"
  by (simp add: normalize_formats_def Let_def unique_formats_distinct split: option.split)




lemmas normalize_eval =
  normalize_formats_def format_entry_def any_in_def get_default_def lower_char_def
  upper_def upper_char_def compute_resolution_def truthy_int_def truthy_str_def str_int_def
  str_nat.simps best_format_def Let_def


lemma unique_formats_closed:
  "unique_formats seen xs =
     map (nth xs)
       (filter (\<lambda>i. resolution (xs ! i) \<notin> seen \<union> resolution ` set (take i xs)) [0..<length xs])"
proof (induction xs arbitrary: seen)
  case Nil
  then show ?case by simp
next
  case (Cons x xs)
  have upt: "[0..<length (x # xs)] = 0 # map Suc [0..<length xs]"
    by (simp add: upt_conv_Cons map_Suc_upt del: upt_Suc)
  show ?case
    unfolding upt
    by (auto simp add: Cons.IH filter_map comp_def simp del: upt_Suc
          intro!: arg_cong[where f="map ((!) xs)"] filter_cong)
qed

text \<open>
  C8. The removal of duplicates keeps the entry at position \<open>i\<close> exactly when no earlier
  entry has its resolution, in the order of the list; the normalised list is the
  filtered list with its duplicates removed, or the default entry when nothing is left.
  For the three raw formats of the scenario the result is one entry with resolution
  \<^verbatim>\<open>1280x720\<close> and container \<^verbatim>\<open>mp4\<close>.
\<close>

theorem unique_formats_first_seen:
  "unique_formats {} xs =
     map (nth xs)
       (filter (\<lambda>i. resolution (xs ! i) \<notin> resolution ` set (take i xs)) [0..<length xs]) \<and>
   normalize_formats (Some fs) =
     (let u = unique_formats {} (filter_formats fs) in if u = [] then [best_format] else u) \<and>
   normalize_formats (Some [https_720, m3u8_720, m4a_audio]) =
     [\<lparr>format_id = ''best'', resolution = ''1280x720'', ext = ''mp4'', filesize = None,
       format_note = ''1280x720 - MP4''\<rparr>]"
proof (intro conjI)
  show "unique_formats {} xs =
     map (nth xs)
       (filter (\<lambda>i. resolution (xs ! i) \<notin> resolution ` set (take i xs)) [0..<length xs])"
    by (simp add: unique_formats_closed)
  show "normalize_formats (Some fs) =
     (let u = unique_formats {} (filter_formats fs) in if u = [] then [best_format] else u)"
    by (cases fs) (simp_all add: normalize_formats_def Let_def)
  show "normalize_formats (Some [https_720, m3u8_720, m4a_audio]) =
     [\<lparr>format_id = ''best'', resolution = ''1280x720'', ext = ''mp4'', filesize = None,
       format_note = ''1280x720 - MP4''\<rparr>]"
    by (simp add: normalize_eval https_720_def m3u8_720_def m4a_audio_def)
qed

section \<open>Properties of paths and the filesystem\<close>

lemma split_slash_plain: "CHR ''/'' \<notin> set s \<Longrightarrow> split_slash s = [s]"
  by (induction s) auto

lemma truediv_plain: "plain_component s \<Longrightarrow> truediv p s = p @ [s]"
  by (cases s) (auto simp: plain_component_def truediv_def pure_parts_def split_slash_plain)

lemma walk_append:
  "walk t cur (xs @ ys) = (case walk t cur xs of Inl e \<Rightarrow> Inl e | Inr r \<Rightarrow> walk t r ys)"
  by (induction xs arbitrary: cur) (auto split: option.splits node.splits)

lemma walk_mono:
  "walk t cur p = Inr q \<Longrightarrow> (\<And>r. t r = Some Dir \<Longrightarrow> t' r = Some Dir) \<Longrightarrow> walk t' cur p = Inr q"
  by (induction p arbitrary: cur) (auto split: option.splits node.splits)

lemma set_parents: "set (parents p) = {q. strict_prefix q p}"
proof -
  have "strict_prefix q p \<longleftrightarrow> (\<exists>n<length p. q = take n p)" for q
  proof
    assume "strict_prefix q p"
    then obtain z zs where "p = q @ z # zs" by (rule strict_prefixE')
    then have "length q < length p" "q = take (length q) p" by simp_all
    then show "\<exists>n<length p. q = take n p" by blast
  next
    assume "\<exists>n<length p. q = take n p"
    then obtain n where "n < length p" "q = take n p" by blast
    then show "strict_prefix q p"
      by (metis append_take_drop_id length_take min.absorb4 nat_neq_iff prefixI strict_prefix_def)
  qed
  then show ?thesis by (auto simp: parents_def)
qed

lemma mkdir_exist_ok_is_dir:
  assumes "mkdir_exist_ok t0 p = Inr t"
  shows "is_dir t p"
proof (cases "os_mkdir t0 p")
  case (Inr t1)
  with assms have t: "t1 = t" by (simp add: mkdir_exist_ok_def)
  from Inr obtain q where w: "walk t0 [] p = Inr q" and n: "t0 q = None" and t1: "t1 = t0(q \<mapsto> Dir)"
    by (auto simp: os_mkdir_def split: sum.splits option.splits)
  have "walk t1 [] p = Inr q"
    by (rule walk_mono [OF w]) (use n t1 in auto)
  moreover have "t1 q = Some Dir" using t1 by simp
  ultimately show ?thesis using t by (simp add: is_dir_def stat_def)
next
  case (Inl e)
  with assms show ?thesis by (auto simp: mkdir_exist_ok_def split: if_splits)
qed

lemma rmtree_gone:
  assumes "rmtree t p = (t', None)"
  shows "\<not> exists t' p"
proof -
  from assms obtain q where w: "walk t [] p = Inr q" and t': "t' = (\<lambda>r. if prefix q r then None else t r)"
    by (auto simp: rmtree_def split: sum.splits option.splits node.splits if_splits)
  show ?thesis
  proof (cases "walk t' [] p")
    case (Inl e)
    then show ?thesis by (simp add: exists_def stat_def)
  next
    case (Inr q')
    have "walk t [] p = Inr q'"
      by (rule walk_mono [OF Inr]) (use t' in \<open>auto split: if_splits\<close>)
    with w have "q' = q" by simp
    with Inr t' show ?thesis by (simp add: exists_def stat_def)
  qed
qed

lemmas fs_eval =
  cleanup_download_def exists_def stat_def os_remove_def rmtree_def parent_def set_parents
  example_fs_def example_cfg_def Let_def

section \<open>Properties of cleanup\<close>

text \<open>
  C1. The claim does not hold of the code. The recursive removal of the parent directory
  is guarded by the downloads root, the removal of the file before it is not: cleanup of
  a file that lies outside the downloads root removes that file. In the example
  filesystem the path \<^verbatim>\<open>/etc/hosts\<close> is a file before the cleanup, is gone after it,
  and does not lie under the downloads root \<^verbatim>\<open>/srv/downloads\<close>.
\<close>

theorem cleanup_download_outside_root:
  "example_fs [''etc'', ''hosts''] = Some File \<and>
   fst (cleanup_download example_cfg [''etc'', ''hosts''] example_fs) [''etc'', ''hosts''] = None \<and>
   \<not> prefix (DOWNLOAD_DIR example_cfg) [''etc'', ''hosts'']"
  by (simp add: fs_eval)

text \<open>
  The guard of the recursive removal compares paths as they are written. With \<^verbatim>\<open>..\<close>
  components a path written below the downloads root resolves to a directory outside
  it, which is then removed with its content.
\<close>

lemma cleanup_download_dotdot:
  "fst (cleanup_download example_cfg
          [''srv'', ''downloads'', ''s1'', ''..'', ''..'', ''..'', ''etc'', ''hosts''] example_fs)
     [''etc''] = None \<and>
   example_fs [''etc''] = Some Dir"
  by (simp add: fs_eval)

text \<open>
  For a path inside a session directory the cleanup does what it is meant to do: the
  file and its directory are removed, the downloads root and the files outside it stay.
\<close>

lemma cleanup_download_session:
  "fst (cleanup_download example_cfg [''srv'', ''downloads'', ''s1'', ''clip.mp4''] example_fs)
     [''srv'', ''downloads'', ''s1'', ''clip.mp4''] = None \<and>
   fst (cleanup_download example_cfg [''srv'', ''downloads'', ''s1'', ''clip.mp4''] example_fs)
     [''srv'', ''downloads'', ''s1''] = None \<and>
   fst (cleanup_download example_cfg [''srv'', ''downloads'', ''s1'', ''clip.mp4''] example_fs)
     [''srv'', ''downloads''] = Some Dir \<and>
   fst (cleanup_download example_cfg [''srv'', ''downloads'', ''s1'', ''clip.mp4''] example_fs)
     [''etc'', ''hosts''] = Some File"
  by (simp add: fs_eval)

section \<open>Properties of extraction\<close>

text \<open>
  On entries without a key that holds \<^verbatim>\<open>None\<close> the loop over the entries raises
  nothing and yields what the normalisation of their descriptors yields.
\<close>

lemma filter_entries_typed:
  "\<forall>d\<in>set ds. null_keys d = [] \<Longrightarrow> filter_entries ds = Inr (filter_formats (map descriptor ds))"
  by (induction ds) (auto simp: entry_result_def split: option.splits)

lemma normalize_entries_typed:
  "\<forall>d\<in>set ds. null_keys d = [] \<Longrightarrow>
   normalize_entries (Some ds) = Inr (normalize_formats (Some (map descriptor ds)))"
  by (simp add: normalize_entries_def normalize_formats_def filter_entries_typed Let_def)

text \<open>
  Whenever the loop over the entries raises nothing, the list it leaves has no two
  entries with the same resolution and is not empty.
\<close>

lemma normalize_entries_distinct_nonempty:
  "normalize_entries raw = Inr out \<Longrightarrow> distinct (map resolution out) \<and> out \<noteq> []"
  by (auto simp: normalize_entries_def Let_def unique_formats_distinct
        split: option.splits if_splits sum.splits)

lemma probe_outcomes_length [simp]: "length (probe_outcomes c url sts w) = length sts"
  by (induction sts arbitrary: w) (auto split: prod.splits)

lemma attempt_outcomes_length [simp]: "length (attempt_outcomes c url did sts w) = length sts"
  by (simp add: attempt_outcomes_def)

lemma attempt_outcomes_Cons:
  "attempt_outcomes c url did (opts # rest) w =
     (case probe c opts url w of
        (r, w') \<Rightarrow>
          (case r of Inl e \<Rightarrow> Inl e | Inr doc \<Rightarrow> build_result did doc) #
          attempt_outcomes c url did rest w')"
  by (simp add: attempt_outcomes_def split: prod.splits)


lemma try_strategies_exhausted:
  "\<forall>r\<in>set (attempt_outcomes c url did sts (world s)). isl r \<Longrightarrow>
   fst (try_strategies c url did sts last_error s) =
     Inl (if sts = [] then last_error
          else Some (projl (last (attempt_outcomes c url did sts (world s))))) \<and>
   calls (snd (try_strategies c url did sts last_error s)) =
     calls s @ map (\<lambda>opts. ExtractInfo opts url False) sts \<and>
   files (snd (try_strategies c url did sts last_error s)) = files s"
proof (induction sts arbitrary: s last_error)
  case Nil
  then show ?case by simp
next
  case (Cons opts rest)
  obtain r w' where p: "probe c opts url (world s) = (r, w')" by (cases "probe c opts url (world s)")
  define a where "a = (case r of Inl e \<Rightarrow> Inl e | Inr doc \<Rightarrow> build_result did doc)"
  have oc: "attempt_outcomes c url did (opts # rest) (world s) = a # attempt_outcomes c url did rest w'"
    by (simp add: attempt_outcomes_Cons p a_def)
  let ?s = "s\<lparr>world := w', calls := calls s @ [ExtractInfo opts url False]\<rparr>"
  from Cons.prems oc have "isl a" by simp
  then obtain e where a: "a = Inl e" by (cases a) auto
  have step: "try_strategies c url did (opts # rest) last_error s =
                try_strategies c url did rest (Some e) ?s"
    using p a by (auto simp: a_def split: sum.splits)
  have "\<forall>r\<in>set (attempt_outcomes c url did rest (world ?s)). isl r"
    using Cons.prems oc by simp
  note ih = Cons.IH [OF this, of "Some e"]
  have ne: "attempt_outcomes c url did rest w' \<noteq> []" if "rest \<noteq> []"
    using that attempt_outcomes_length [of c url did rest w'] by (metis length_0_conv)
  have "last (a # attempt_outcomes c url did rest w') =
          (if rest = [] then a else last (attempt_outcomes c url did rest w'))"
    using ne by (auto simp: attempt_outcomes_def)
  with ih a show ?case
    unfolding step oc by simp
qed

lemma attempt_outcomes_probe_errors:
  "\<forall>r\<in>set (probe_outcomes c url sts w). isl r \<Longrightarrow>
   attempt_outcomes c url did sts w = map (\<lambda>r. Inl (projl r)) (probe_outcomes c url sts w)"
  by (auto simp: attempt_outcomes_def split: sum.splits)

lemmas run_eval =
  extract_video_info_def download_video_def run_fetch_def download_opts_def format_selector_def
  scripted_caps_def example_state_def example_cfg_def example_fs_def strategies_def
  truediv_def pure_parts_def Path_def mkdir_exist_ok_def os_mkdir_def is_dir_def exists_def
  stat_def rmtree_def classify_error_def str_last_error_def Let_def

lemmas build_eval =
  build_result_def normalize_entries_def entry_result_def int_of_float_def example_doc_def
  null_note_doc_def



text \<open>
  A document on which the construction of the result raises does not end the loop: when
  every call returns the document with a \<^verbatim>\<open>format_note\<close> that holds \<^verbatim>\<open>None\<close>, all three
  strategies are called and extraction raises the generic error with the text of the
  \<^verbatim>\<open>AttributeError\<close>.
\<close>

lemma extract_video_info_null_note:
  "fst (extract_video_info example_cfg null_note_caps ''https://facebook.com/reel/123''
          example_unit_state) =
     Inl (ValueError (''Could not process video: '' @ quoted ''NoneType'' @
                      '' object has no attribute '' @ quoted ''lower'')) \<and>
   calls (snd (extract_video_info example_cfg null_note_caps ''https://facebook.com/reel/123''
                 example_unit_state)) =
     Uuid4 ''s2'' # map (\<lambda>opts. ExtractInfo opts ''https://facebook.com/reel/123'' False) strategies"
proof -
  have v: "validate_facebook_url ''https://facebook.com/reel/123''"
    by (simp add: classifier_eval)
  have b: "build_result ''s2'' (Some null_note_doc) =
             Inl (OtherException (quoted ''NoneType'' @ '' object has no attribute '' @
                                  quoted ''lower''))"
    by (simp add: build_eval)
  have c: "classify_error (quoted ''NoneType'' @ '' object has no attribute '' @ quoted ''lower'')
             = ''Could not process video: '' @ quoted ''NoneType'' @
               '' object has no attribute '' @ quoted ''lower''"
    by (simp add: classify_error_def quoted_def lower_char_def)
  show ?thesis
    using v b c
    by (simp add: extract_video_info_def null_note_caps_def example_unit_state_def
          example_cfg_def example_fs_def strategies_def truediv_def pure_parts_def
          mkdir_exist_ok_def os_mkdir_def is_dir_def exists_def stat_def rmtree_def
          str_last_error_def Let_def)
qed

text \<open>
  C5. When all three strategies fail, the scratch directory of the session does not
  exist afterwards, and the error raised carries the message chosen from the text of the
  last failure: the guidance message for a parse or extraction failure, else the
  access-restricted message for a private or login failure, else the generic message
  followed by the raw text.
\<close>

theorem extract_video_info_exhausted:
  assumes "validate_facebook_url url"
    and "uuid4 c (world s) = (did, w)"
    and "plain_component did"
    and "\<not> isl (mkdir_exist_ok (files s) (truediv (DOWNLOAD_DIR cfg) did))"
    and "probe_outcomes c url strategies w = [Inl e1, Inl e2, Inl e3]"
  shows "\<not> exists (files (snd (extract_video_info cfg c url s))) (truediv (DOWNLOAD_DIR cfg) did) \<and>
         fst (extract_video_info cfg c url s) =
           Inl (ValueError
             (if str_in ''Cannot parse data'' (str_exn e3) \<or>
                 str_in ''unable to extract'' (lower (str_exn e3))
              then guidance_message
              else if str_in ''Private video'' (str_exn e3) \<or> str_in ''login'' (lower (str_exn e3))
              then private_message
              else ''Could not process video: '' @ str_exn e3)) \<and>
         calls (snd (extract_video_info cfg c url s)) =
           calls s @ Uuid4 did # map (\<lambda>opts. ExtractInfo opts url False) strategies"
proof -
  let ?p = "truediv (DOWNLOAD_DIR cfg) did"
  from assms(4) obtain t where mk: "mkdir_exist_ok (files s) ?p = Inr t"
    by (cases "mkdir_exist_ok (files s) ?p") auto
  let ?s = "s\<lparr>world := w, calls := calls s @ [Uuid4 did], files := t\<rparr>"
  have po: "\<forall>r\<in>set (probe_outcomes c url strategies (world ?s)). isl r"
    using assms(5) by simp
  have ao: "attempt_outcomes c url did strategies (world ?s) = [Inl e1, Inl e2, Inl e3]"
    using attempt_outcomes_probe_errors [OF po, of did] assms(5) by simp
  then have "\<forall>r\<in>set (attempt_outcomes c url did strategies (world ?s)). isl r"
    by simp
  note ts = try_strategies_exhausted [OF this, of None]
  obtain r s2 where run: "try_strategies c url did strategies None ?s = (r, s2)"
    by (cases "try_strategies c url did strategies None ?s")
  have ne: "strategies \<noteq> []" by (simp add: strategies_def)
  from ts run ne ao have r: "r = Inl (Some e3)"
    and c2: "calls s2 = calls s @ Uuid4 did # map (\<lambda>opts. ExtractInfo opts url False) strategies"
    and f2: "files s2 = t"
    by simp_all
  have p: "?p = DOWNLOAD_DIR cfg @ [did]" by (rule truediv_plain [OF assms(3)])
  from mkdir_exist_ok_is_dir [OF mk] obtain q where wq: "walk t [] ?p = Inr q" and d: "t q = Some Dir"
    by (auto simp: is_dir_def stat_def split: sum.splits option.splits)
  from wq obtain q0 where "walk t q0 [did] = Inr q"
    unfolding p walk_append by (auto split: sum.splits)
  with assms(3) have "q \<noteq> []"
    by (auto simp: plain_component_def split: option.splits node.splits)
  moreover have "?p \<noteq> [] \<and> last ?p \<noteq> ''..''"
    using assms(3) by (simp add: p plain_component_def)
  ultimately have rt: "rmtree t ?p = ((\<lambda>r. if prefix q r then None else t r), None)"
    using wq d by (simp add: rmtree_def)
  have ex: "exists t ?p" using wq d by (simp add: exists_def stat_def)
  have gone: "\<not> exists (\<lambda>r. if prefix q r then None else t r) ?p"
    by (rule rmtree_gone [OF rt])
  from run r c2 f2 mk ex rt gone assms(1,2) show ?thesis
    by (simp add: extract_video_info_def Let_def classify_error_def str_last_error_def)
qed

theorem extract_video_info_exhausted_witness:
  "validate_facebook_url ''https://facebook.com/reel/123'' \<and>
   plain_component ''s2'' \<and>
   \<not> exists (files (snd (extract_video_info example_cfg (scripted_caps 7)
                ''https://facebook.com/reel/123'' example_state)))
        (truediv (DOWNLOAD_DIR example_cfg) ''s2'') \<and>
   fst (extract_video_info example_cfg (scripted_caps 7) ''https://facebook.com/reel/123''
          example_state) = Inl (ValueError guidance_message)"
proof -
  have v: "validate_facebook_url ''https://facebook.com/reel/123''"
    by (simp add: classifier_eval)
  have u: "uuid4 (scripted_caps 7) (world example_state) = (''s2'', 0)"
    by (simp add: scripted_caps_def example_state_def)
  have pc: "plain_component ''s2''" by (simp add: plain_component_def)
  have m: "\<not> isl (mkdir_exist_ok (files example_state) (truediv (DOWNLOAD_DIR example_cfg) ''s2''))"
    by (simp add: run_eval)
  have o: "probe_outcomes (scripted_caps 7) ''https://facebook.com/reel/123'' strategies 0 =
             [Inl (DownloadError ''Cannot parse data''), Inl (DownloadError ''Cannot parse data''),
              Inl (DownloadError ''Cannot parse data'')]"
    by (simp add: strategies_def scripted_caps_def)
  from extract_video_info_exhausted [OF v u pc m o] v pc show ?thesis by simp
qed

text \<open>
  C10. Extraction of a URL that the classifier rejects raises the invalid-URL error and
  leaves the whole state as it was: no identifier is drawn, no directory is made, no
  call is recorded.
\<close>

theorem extract_video_info_rejects_atomically:
  assumes "\<not> validate_facebook_url url"
  shows "extract_video_info cfg c url s = (Inl (ValueError ''Not a valid Facebook URL''), s)"
  using assms by (simp add: extract_video_info_def)

theorem extract_video_info_rejects_atomically_witness:
  "\<not> validate_facebook_url ''https://example.com/v/1'' \<and>
   extract_video_info example_cfg (scripted_caps 0) ''https://example.com/v/1'' example_state =
     (Inl (ValueError ''Not a valid Facebook URL''), example_state)"
proof -
  have nv: "\<not> validate_facebook_url ''https://example.com/v/1''"
    by (simp add: classifier_eval)
  from extract_video_info_rejects_atomically [OF nv] nv show ?thesis by simp
qed


section \<open>Properties of download\<close>

lemma download_video_unfold:
  assumes "(if \<not> exists (files s) (truediv (DOWNLOAD_DIR cfg) did)
            then mkdir_exist_ok (files s) (truediv (DOWNLOAD_DIR cfg) did)
            else Inr (files s)) = Inr t"
    and "fetch c (download_opts (truediv (DOWNLOAD_DIR cfg) did) fid) url t (world s) = (r1, t1, w1)"
  shows "download_video cfg c url did fid s =
     (let opts = download_opts (truediv (DOWNLOAD_DIR cfg) did) fid;
          s1 = s\<lparr>files := t1, world := w1, calls := calls s @ [ExtractInfo opts url True]\<rparr>
      in case r1 of
           Inr filename \<Rightarrow> (Inr (Path filename), s1)
         | Inl (DownloadError error_msg) \<Rightarrow>
             if str_in ''Requested format is not available'' error_msg
             then (case run_fetch c (opts\<lparr>format := ''best''\<rparr>) url s1 of
                     (Inr filename, s2) \<Rightarrow> (Inr (Path filename), s2)
                   | (Inl retry_error, s2) \<Rightarrow>
                       (Inl (ValueError (''Could not download video in any available format: ''
                                         @ str_exn retry_error)), s2))
             else (Inl (ValueError (''Download failed: '' @ error_msg)), s1)
         | Inl (OtherException m) \<Rightarrow>
             (Inl (ValueError (''Unexpected error during download: '' @ m)), s1))"
  using assms by (simp add: download_video_def run_fetch_def Let_def)

text \<open>
  C3. Let the scratch directory be ensured, \<open>r1\<close> be the outcome of the first download
  call and \<open>r2\<close> the outcome of a call with the format \<^verbatim>\<open>best\<close> made after it. If \<open>r1\<close>
  is a download error that names the requested format as unavailable, the download makes
  exactly one more call, with the format \<^verbatim>\<open>best\<close>, and returns the path of that call,
  or raises an error with the message of its failure. Any other failure of the first
  call is raised with its message after that one call.
\<close>

theorem download_video_retries_once:
  fixes cfg :: settings and c :: "'w caps" and s :: "'w state"
  assumes "p = truediv (DOWNLOAD_DIR cfg) did"
    and "opts = download_opts p fid"
    and "(if \<not> exists (files s) p then mkdir_exist_ok (files s) p else Inr (files s)) = Inr t"
    and "fetch c opts url t (world s) = (r1, t1, w1)"
    and "fetch c (opts\<lparr>format := ''best''\<rparr>) url t1 w1 = (r2, t2, w2)"
    and "res = fst (download_video cfg c url did fid s)"
    and "evs = calls (snd (download_video cfg c url did fid s))"
  shows "(\<forall>m. r1 = Inl (DownloadError m) \<and> str_in ''Requested format is not available'' m \<longrightarrow>
            evs = calls s @ [ExtractInfo opts url True,
                             ExtractInfo (opts\<lparr>format := ''best''\<rparr>) url True] \<and>
            (\<forall>filename. r2 = Inr filename \<longrightarrow> res = Inr (Path filename)) \<and>
            (\<forall>e. r2 = Inl e \<longrightarrow>
               res = Inl (ValueError (''Could not download video in any available format: ''
                                      @ str_exn e)))) \<and>
         (\<forall>m. r1 = Inl (DownloadError m) \<and> \<not> str_in ''Requested format is not available'' m \<longrightarrow>
            evs = calls s @ [ExtractInfo opts url True] \<and>
            res = Inl (ValueError (''Download failed: '' @ m))) \<and>
         (\<forall>m. r1 = Inl (OtherException m) \<longrightarrow>
            evs = calls s @ [ExtractInfo opts url True] \<and>
            res = Inl (ValueError (''Unexpected error during download: '' @ m)))"
proof -
  note u = download_video_unfold [OF assms(3) [unfolded assms(1)] assms(4) [unfolded assms(2) assms(1)]]
  have f2: "fetch c (download_opts (truediv (DOWNLOAD_DIR cfg) did) fid\<lparr>format := ''best''\<rparr>) url t1 w1
              = (r2, t2, w2)"
    using assms(5) by (simp add: assms(1,2))
  show ?thesis
    unfolding assms(6,7) u
    by (cases r2) (auto simp: Let_def run_fetch_def f2 assms(1,2))
qed

theorem download_video_retries_once_witness:
  "fst (download_video example_cfg (scripted_caps 1) ''https://facebook.com/reel/123'' ''s1'' ''999''
          example_state) = Inr [''srv'', ''downloads'', ''s1'', ''clip.mp4''] \<and>
   calls (snd (download_video example_cfg (scripted_caps 1) ''https://facebook.com/reel/123'' ''s1''
                 ''999'' example_state)) =
     calls example_state @
       [ExtractInfo (download_opts [''srv'', ''downloads'', ''s1''] ''999'')
          ''https://facebook.com/reel/123'' True,
        ExtractInfo ((download_opts [''srv'', ''downloads'', ''s1''] ''999'')\<lparr>format := ''best''\<rparr>)
          ''https://facebook.com/reel/123'' True]"
proof -
  have p: "[''srv'', ''downloads'', ''s1''] = truediv (DOWNLOAD_DIR example_cfg) ''s1''"
    by (simp add: truediv_def pure_parts_def example_cfg_def)
  have mk: "(if \<not> exists (files example_state) [''srv'', ''downloads'', ''s1'']
             then mkdir_exist_ok (files example_state) [''srv'', ''downloads'', ''s1'']
             else Inr (files example_state)) = Inr example_fs"
    by (simp add: exists_def stat_def example_state_def example_fs_def)
  have f1: "fetch (scripted_caps 1) (download_opts [''srv'', ''downloads'', ''s1''] ''999'')
              ''https://facebook.com/reel/123'' example_fs (world example_state) =
            (Inl (DownloadError ''ERROR: Requested format is not available''), example_fs, 1)"
    by (simp add: scripted_caps_def example_state_def)
  have f2: "fetch (scripted_caps 1)
              ((download_opts [''srv'', ''downloads'', ''s1''] ''999'')\<lparr>format := ''best''\<rparr>)
              ''https://facebook.com/reel/123'' example_fs 1 =
            (Inr ''/srv/downloads/s1/clip.mp4'', example_fs, 2)"
    by (simp add: scripted_caps_def)
  have m: "str_in ''Requested format is not available'' ''ERROR: Requested format is not available''"
    by simp
  have pth: "Path ''/srv/downloads/s1/clip.mp4'' = [''srv'', ''downloads'', ''s1'', ''clip.mp4'']"
    by (simp add: Path_def pure_parts_def)
  from download_video_retries_once [OF p refl mk f1 f2 refl refl] m pth show ?thesis by simp
qed

text \<open>
  C9. The format selector is \<^verbatim>\<open>best\<close> when the format identifier is empty or
  \<^verbatim>\<open>best\<close>, and the identifier followed by \<^verbatim>\<open>/best\<close> otherwise; unless making the
  scratch directory fails, the first call of the download carries that selector.
\<close>

theorem download_video_format_selector:
  assumes "\<forall>e. fst (download_video cfg c url did fid s) \<noteq> Inl (OSError e)"
  shows "format_selector fid = (if fid = [] \<or> fid = ''best'' then ''best'' else fid @ ''/best'') \<and>
         (\<exists>opts rest.
            calls (snd (download_video cfg c url did fid s)) =
              calls s @ ExtractInfo opts url True # rest \<and>
            format opts = (if fid = [] \<or> fid = ''best'' then ''best'' else fid @ ''/best''))"
proof -
  let ?p = "truediv (DOWNLOAD_DIR cfg) did"
  let ?m = "if \<not> exists (files s) ?p then mkdir_exist_ok (files s) ?p else Inr (files s)"
  from assms obtain t where mk: "?m = Inr t"
    by (cases ?m) (auto simp: download_video_def Let_def)
  obtain r1 t1 w1 where f1: "fetch c (download_opts ?p fid) url t (world s) = (r1, t1, w1)"
    by (cases "fetch c (download_opts ?p fid) url t (world s)")
  have sel: "format (download_opts ?p fid) = (if fid = [] \<or> fid = ''best'' then ''best'' else fid @ ''/best'')"
    by (auto simp: download_opts_def format_selector_def)
  have "\<exists>rest. calls (snd (download_video cfg c url did fid s)) =
          calls s @ ExtractInfo (download_opts ?p fid) url True # rest"
    unfolding download_video_unfold [OF mk f1]
    by (auto simp: Let_def run_fetch_def split: sum.splits exn.splits prod.splits)
  with sel show ?thesis by (auto simp: format_selector_def)
qed

theorem download_video_format_selector_witness:
  "fst (download_video example_cfg (scripted_caps 0) ''https://facebook.com/reel/123'' ''s1'' ''999''
          example_state) = Inr [''srv'', ''downloads'', ''s1'', ''clip.mp4''] \<and>
   format_selector ''999'' = ''999/best'' \<and>
   (\<exists>opts rest.
      calls (snd (download_video example_cfg (scripted_caps 0) ''https://facebook.com/reel/123''
                    ''s1'' ''999'' example_state)) =
        calls example_state @ ExtractInfo opts ''https://facebook.com/reel/123'' True # rest \<and>
      format opts = ''999/best'')"
proof -
  have r: "fst (download_video example_cfg (scripted_caps 0) ''https://facebook.com/reel/123'' ''s1''
             ''999'' example_state) = Inr [''srv'', ''downloads'', ''s1'', ''clip.mp4'']"
    by (simp add: run_eval)
  then have "\<forall>e. fst (download_video example_cfg (scripted_caps 0) ''https://facebook.com/reel/123''
             ''s1'' ''999'' example_state) \<noteq> Inl (OSError e)"
    by simp
  from download_video_format_selector [OF this] r show ?thesis by simp
qed


end
